theory Spec2Isabelle
  imports Complex_Main "HOL-Library.Product_Lexorder" "HOL-Library.Multiset"
begin

section \<open>Power plant production planner (\<^verbatim>\<open>Solution/main.py\<close>)\<close>

text \<open>
  The planner computes with Python floats. They are modelled here as exact reals: the
  embedding describes the algorithm (branches, order of visits, arithmetic on the values)
  and not the binary rounding of single operations, overflow or NaN. The one float value
  with no real counterpart that the code produces on purpose, \<^verbatim>\<open>float('inf')\<close>, is a
  constructor of the cost type. Division by a zero efficiency raises
  \<^verbatim>\<open>ZeroDivisionError\<close> in Python and is a branch of the model.
\<close>

subsection \<open>Data models\<close>

record Fuels =
  gas_euro_mwh :: real
  kerosine_euro_mwh :: real
  co2_euro_ton :: real
  wind_percent :: real

record PowerPlantOutput =
  name :: string
  p :: real

record PowerPlant =
  name :: string
  type :: string
  efficiency :: real
  pmin :: real
  pmax :: real

text \<open>
  Exceptions as values. \<^verbatim>\<open>HTTPException\<close> is FastAPI's exception class, a subclass of
  \<^verbatim>\<open>Exception\<close> like every other exception the handler body can raise. The detail of
  an \<^verbatim>\<open>HTTPException\<close> is an f-string in the source; its two shapes are kept as
  constructors, with the interpolated values as arguments.
\<close>

datatype exn =
    ZeroDivisionError
  | HTTPException (status_code: int) (detail: message)
and message =
    Unable_to_match_load real real
  | Error_str exn

text \<open>A cost is a finite float or \<^verbatim>\<open>float('inf')\<close>; Python compares them as usual.\<close>

datatype cost_value = Fin real | PosInf

instantiation cost_value :: linorder
begin

fun less_eq_cost_value :: "cost_value \<Rightarrow> cost_value \<Rightarrow> bool" where
  "less_eq_cost_value (Fin a) (Fin b) = (a \<le> b)"
| "less_eq_cost_value PosInf (Fin b) = False"
| "less_eq_cost_value c PosInf = True"

definition less_cost_value :: "cost_value \<Rightarrow> cost_value \<Rightarrow> bool" where
  "less_cost_value c d = (c \<le> d \<and> \<not> d \<le> c)"

instance
proof
  fix x y z :: cost_value
  show "(x < y) = (x \<le> y \<and> \<not> y \<le> x)"
    by (simp add: less_cost_value_def)
  show "x \<le> x"
    by (cases x) simp_all
  show "x \<le> y \<Longrightarrow> y \<le> z \<Longrightarrow> x \<le> z"
    by (cases x; cases y; cases z) simp_all
  show "x \<le> y \<Longrightarrow> y \<le> x \<Longrightarrow> x = y"
    by (cases x; cases y) simp_all
  show "x \<le> y \<or> y \<le> x"
    by (cases x; cases y) auto
qed

end

subsection \<open>Cost and capacity of a plant\<close>

definition calculate_cost_per_mwh :: "PowerPlant \<Rightarrow> Fuels \<Rightarrow> exn + cost_value" where
  "calculate_cost_per_mwh plant fuels =
     (if type plant = ''windturbine'' then Inr (Fin 0)
      else if type plant = ''gasfired'' then
        (if efficiency plant = 0 then Inl ZeroDivisionError
         else
           let fuel_cost = gas_euro_mwh fuels / efficiency plant;
               co2_cost = (0.3 * co2_euro_ton fuels) / efficiency plant
           in Inr (Fin (fuel_cost + co2_cost)))
      else if type plant = ''turbojet'' then
        (if efficiency plant = 0 then Inl ZeroDivisionError
         else Inr (Fin (kerosine_euro_mwh fuels / efficiency plant)))
      else Inr PosInf)"

definition calculate_actual_pmax :: "PowerPlant \<Rightarrow> Fuels \<Rightarrow> real" where
  "calculate_actual_pmax plant fuels =
     (if type plant = ''windturbine'' then pmax plant * (wind_percent fuels / 100.0)
      else pmax plant)"

subsection \<open>The working list \<^verbatim>\<open>plants_data\<close>\<close>

text \<open>
  One dictionary per plant, with the keys \<^verbatim>\<open>'plant'\<close>, \<^verbatim>\<open>'cost'\<close>,
  \<^verbatim>\<open>'actual_pmax'\<close> and \<^verbatim>\<open>'power'\<close> (here \<open>power_mw\<close>, as \<open>power\<close> is
  exponentiation in HOL).
\<close>

record plant_data =
  plant :: PowerPlant
  cost :: cost_value
  actual_pmax :: real
  power_mw :: real

text \<open>Step 1: the loop that builds the list; the first failing cost computation ends it.\<close>

fun build_plants_data :: "Fuels \<Rightarrow> PowerPlant list \<Rightarrow> exn + plant_data list" where
  "build_plants_data fuels [] = Inr []"
| "build_plants_data fuels (pl # powerplants) =
     (case calculate_cost_per_mwh pl fuels of
        Inl e \<Rightarrow> Inl e
      | Inr c \<Rightarrow>
         (case build_plants_data fuels powerplants of
            Inl e \<Rightarrow> Inl e
          | Inr plants_data \<Rightarrow>
              Inr (\<lparr>plant = pl, cost = c,
                    actual_pmax = calculate_actual_pmax pl fuels,
                    power_mw = 0\<rparr> # plants_data)))"

text \<open>
  Step 2: \<^verbatim>\<open>plants_data.sort(key=lambda x: (x['cost'], -x['actual_pmax']))\<close>. Python's
  sort is stable and compares the key tuples lexicographically.
\<close>

definition sort_key_of :: "plant_data \<Rightarrow> cost_value \<times> real" where
  "sort_key_of x = (cost x, - actual_pmax x)"

definition merit_order :: "plant_data list \<Rightarrow> plant_data list" where
  "merit_order plants_data = sort_key sort_key_of plants_data"

subsection \<open>Step 3: greedy allocation\<close>

text \<open>The body of the loop after the \<^verbatim>\<open>break\<close> test: one plant, one remaining load.\<close>

definition allocate_plant :: "real \<Rightarrow> plant_data \<Rightarrow> plant_data \<times> real" where
  "allocate_plant remaining_load plant_data =
     (if actual_pmax plant_data < 0.1 then (plant_data, remaining_load)
      else if remaining_load \<ge> pmin (plant plant_data) then
        (let power_to_allocate = min remaining_load (actual_pmax plant_data)
         in (plant_data\<lparr>power_mw := power_to_allocate\<rparr>, remaining_load - power_to_allocate))
      else if remaining_load > 0 \<and> pmin (plant plant_data) = 0 then
        (let power_to_allocate = min remaining_load (actual_pmax plant_data)
         in (plant_data\<lparr>power_mw := power_to_allocate\<rparr>, remaining_load - power_to_allocate))
      else if remaining_load > 0 \<and> actual_pmax plant_data \<ge> pmin (plant plant_data) then
        (plant_data\<lparr>power_mw := pmin (plant plant_data)\<rparr>,
         remaining_load - pmin (plant plant_data))
      else (plant_data, remaining_load))"

fun greedy_allocation :: "real \<Rightarrow> plant_data list \<Rightarrow> plant_data list \<times> real" where
  "greedy_allocation remaining_load [] = ([], remaining_load)"
| "greedy_allocation remaining_load (plant_data # rest) =
     (if remaining_load \<le> 0.1 then (plant_data # rest, remaining_load)
      else
        (case allocate_plant remaining_load plant_data of
           (plant_data', remaining_load') \<Rightarrow>
             (case greedy_allocation remaining_load' rest of
                (rest', r) \<Rightarrow> (plant_data' # rest', r))))"

subsection \<open>Step 4: overproduction\<close>

text \<open>
  The loop over \<^verbatim>\<open>reversed(plants_data)\<close>, here over the list it is given; the caller
  reverses. A \<^verbatim>\<open>break\<close> returns the rest of the list as it is.
\<close>

fun reduce_overproduction :: "real \<Rightarrow> plant_data list \<Rightarrow> plant_data list \<times> real" where
  "reduce_overproduction remaining_load [] = ([], remaining_load)"
| "reduce_overproduction remaining_load (plant_data # rest) =
     (if power_mw plant_data > 0 then
        (let excess = \<bar>remaining_load\<bar> in
         if power_mw plant_data - excess \<ge> pmin (plant plant_data) then
           (plant_data\<lparr>power_mw := power_mw plant_data - excess\<rparr> # rest, 0)
         else if pmin (plant plant_data) = 0 then
           (let reduction = min (power_mw plant_data) excess;
                plant_data' = plant_data\<lparr>power_mw := power_mw plant_data - reduction\<rparr>;
                remaining_load' = remaining_load + reduction
            in if \<bar>remaining_load'\<bar> < 0.1 then (plant_data' # rest, remaining_load')
               else (case reduce_overproduction remaining_load' rest of
                       (rest', r) \<Rightarrow> (plant_data' # rest', r)))
         else (case reduce_overproduction remaining_load rest of
                 (rest', r) \<Rightarrow> (plant_data # rest', r)))
      else (case reduce_overproduction remaining_load rest of
              (rest', r) \<Rightarrow> (plant_data # rest', r)))"

definition handle_overproduction :: "plant_data list \<times> real \<Rightarrow> plant_data list \<times> real" where
  "handle_overproduction st =
     (case st of (plants_data, remaining_load) \<Rightarrow>
        if remaining_load < - 0.1 then
          (case reduce_overproduction remaining_load (rev plants_data) of
             (reduced, r) \<Rightarrow> (rev reduced, r))
        else (plants_data, remaining_load))"

subsection \<open>Step 5: rounding and the result\<close>

text \<open>
  \<^verbatim>\<open>round(x, 1)\<close>: Python rounds a float to one decimal correctly, and a value exactly
  halfway between two candidates goes to the even one.
\<close>

definition round_half_even :: "real \<Rightarrow> int" where
  "round_half_even y =
     (let f = \<lfloor>y\<rfloor>; d = y - of_int f
      in if d < 1 / 2 then f
         else if 1 / 2 < d then f + 1
         else if even f then f else f + 1)"

definition round1 :: "real \<Rightarrow> real" where
  "round1 x = of_int (round_half_even (x * 10)) / 10"

definition plan_output :: "plant_data \<Rightarrow> PowerPlantOutput" where
  "plan_output plant_data =
     \<lparr>PowerPlantOutput.name = PowerPlant.name (plant plant_data),
      p = round1 (power_mw plant_data)\<rparr>"

text \<open>
  The working list and the remaining load after steps 1 to 4, and the function of the
  source, which returns the rounded list.
\<close>

definition dispatch :: "real \<Rightarrow> Fuels \<Rightarrow> PowerPlant list \<Rightarrow> exn + plant_data list \<times> real" where
  "dispatch load fuels powerplants =
     (case build_plants_data fuels powerplants of
        Inl e \<Rightarrow> Inl e
      | Inr plants_data \<Rightarrow>
          Inr (handle_overproduction (greedy_allocation load (merit_order plants_data))))"

definition calculate_production_plan ::
    "real \<Rightarrow> Fuels \<Rightarrow> PowerPlant list \<Rightarrow> exn + PowerPlantOutput list" where
  "calculate_production_plan load fuels powerplants =
     (case dispatch load fuels powerplants of
        Inl e \<Rightarrow> Inl e
      | Inr (plants_data, remaining_load) \<Rightarrow> Inr (map plan_output plants_data))"

subsection \<open>The request handler\<close>

record ProductionPlanRequest =
  load :: real
  fuels :: Fuels
  powerplants :: "PowerPlant list"

text \<open>The body of the \<^verbatim>\<open>try\<close> block.\<close>

definition production_plan_body :: "ProductionPlanRequest \<Rightarrow> exn + PowerPlantOutput list" where
  "production_plan_body request =
     (case calculate_production_plan (load request) (fuels request) (powerplants request) of
        Inl e \<Rightarrow> Inl e
      | Inr plan \<Rightarrow>
          (let total_production = sum_list (map p plan)
           in if \<bar>total_production - load request\<bar> > 0.1 then
                Inl (HTTPException 400 (Unable_to_match_load (load request) total_production))
              else Inr plan))"

text \<open>
  \<^verbatim>\<open>except Exception as e: raise HTTPException(status_code=500, ...)\<close> catches every
  exception raised in the body, the \<^verbatim>\<open>HTTPException\<close> of the body included.
\<close>

definition production_plan :: "ProductionPlanRequest \<Rightarrow> exn + PowerPlantOutput list" where
  "production_plan request =
     (case production_plan_body request of
        Inl e \<Rightarrow> Inl (HTTPException 500 (Error_str e))
      | Inr plan \<Rightarrow> Inr plan)"

subsection \<open>The stages as the specification words them\<close>

text \<open>
  The merit key of a plant, from its cost and capacity: ascending cost first, then
  descending capacity. (A plant whose cost computation fails never reaches the sort.)
\<close>

definition merit_key :: "Fuels \<Rightarrow> PowerPlant \<Rightarrow> cost_value \<times> real" where
  "merit_key fs pl =
     (case calculate_cost_per_mwh pl fs of Inl e \<Rightarrow> PosInf | Inr c \<Rightarrow> c,
      - calculate_actual_pmax pl fs)"

text \<open>
  The greedy allocator of the specification: an entry is skipped when its effective
  capacity is below 0.1; it gets \<open>min\<close> of remaining load and capacity when the
  remaining load is at least its minimum output, or positive with a minimum output of 0;
  it is force-committed at its minimum output when the remaining load is positive and
  below the minimum output, and the minimum output is at most the capacity; otherwise it
  is skipped. The pass stops at the first entry met with a remaining load of at most 0.1.
\<close>

definition spec_allocate_entry :: "real \<Rightarrow> plant_data \<Rightarrow> plant_data \<times> real" where
  "spec_allocate_entry r e =
     (if actual_pmax e < 1 / 10 then (e, r)
      else if pmin (plant e) \<le> r \<or> (0 < r \<and> pmin (plant e) = 0) then
        (e\<lparr>power_mw := min r (actual_pmax e)\<rparr>, r - min r (actual_pmax e))
      else if 0 < r \<and> r < pmin (plant e) \<and> pmin (plant e) \<le> actual_pmax e then
        (e\<lparr>power_mw := pmin (plant e)\<rparr>, r - pmin (plant e))
      else (e, r))"

fun spec_greedy_allocator :: "real \<Rightarrow> plant_data list \<Rightarrow> plant_data list \<times> real" where
  "spec_greedy_allocator r [] = ([], r)"
| "spec_greedy_allocator r (e # es) =
     (if r \<le> 1 / 10 then (e # es, r)
      else
        (case spec_allocate_entry r e of
           (e', r') \<Rightarrow>
             (case spec_greedy_allocator r' es of (es', r'') \<Rightarrow> (e' # es', r''))))"

text \<open>
  The overproduction corrector of the specification, on the entries in the order of the
  walk: an entry with zero allocation is skipped; an entry that stays at or above its
  minimum output after giving up the whole excess gives it up, the remaining load becomes
  0 and the walk stops; otherwise an entry with minimum output 0 is reduced by \<open>min\<close> of
  its allocation and the excess, the reduction is added back to the remaining load, and
  the walk stops once the remaining load is within 0.1 of zero; any other entry is left
  as it is. The corrector walks the reversed merit order, and only when the remaining load
  is below \<open>-0.1\<close>.
\<close>

fun spec_reverse_walk :: "real \<Rightarrow> plant_data list \<Rightarrow> plant_data list \<times> real" where
  "spec_reverse_walk r [] = ([], r)"
| "spec_reverse_walk r (e # es) =
     (if power_mw e = 0 then
        (case spec_reverse_walk r es of (es', r') \<Rightarrow> (e # es', r'))
      else if pmin (plant e) \<le> power_mw e - \<bar>r\<bar> then
        (e\<lparr>power_mw := power_mw e - \<bar>r\<bar>\<rparr> # es, 0)
      else if pmin (plant e) = 0 then
        (if \<bar>r + min (power_mw e) \<bar>r\<bar>\<bar> < 1 / 10 then
           (e\<lparr>power_mw := power_mw e - min (power_mw e) \<bar>r\<bar>\<rparr> # es,
            r + min (power_mw e) \<bar>r\<bar>)
         else
           (case spec_reverse_walk (r + min (power_mw e) \<bar>r\<bar>) es of
              (es', r') \<Rightarrow> (e\<lparr>power_mw := power_mw e - min (power_mw e) \<bar>r\<bar>\<rparr> # es', r')))
      else (case spec_reverse_walk r es of (es', r') \<Rightarrow> (e # es', r')))"

definition spec_overproduction_corrector ::
    "plant_data list \<times> real \<Rightarrow> plant_data list \<times> real" where
  "spec_overproduction_corrector st =
     (if snd st < - (1 / 10) then
        (case spec_reverse_walk (snd st) (rev (fst st)) of (es', r') \<Rightarrow> (rev es', r'))
      else st)"

subsection \<open>Example requests\<close>

text \<open>Fuel prices and plants of the concrete requests evaluated below.\<close>

definition ex_fuels :: Fuels where
  "ex_fuels = \<lparr>gas_euro_mwh = 10, kerosine_euro_mwh = 50, co2_euro_ton = 0, wind_percent = 100\<rparr>"

definition ex_wind10 :: PowerPlant where
  "ex_wind10 = \<lparr>name = ''wind'', type = ''windturbine'', efficiency = 1, pmin = 0, pmax = 10\<rparr>"

definition ex_gas40 :: PowerPlant where
  "ex_gas40 = \<lparr>name = ''gas'', type = ''gasfired'', efficiency = 0.5, pmin = 40, pmax = 100\<rparr>"

definition ex_gas60 :: PowerPlant where
  "ex_gas60 = \<lparr>name = ''gas'', type = ''gasfired'', efficiency = 0.5, pmin = 60, pmax = 100\<rparr>"

definition ex_gas_broken :: PowerPlant where
  "ex_gas_broken = \<lparr>name = ''gas'', type = ''gasfired'', efficiency = 0, pmin = 60, pmax = 100\<rparr>"

definition ex_g0 :: PowerPlant where
  "ex_g0 = \<lparr>name = ''g0'', type = ''gasfired'', efficiency = 1, pmin = 0.25, pmax = 0.25\<rparr>"

definition ex_g1 :: PowerPlant where
  "ex_g1 = \<lparr>name = ''g1'', type = ''gasfired'', efficiency = 0.8, pmin = 0.25, pmax = 0.25\<rparr>"

definition ex_g2 :: PowerPlant where
  "ex_g2 = \<lparr>name = ''g2'', type = ''gasfired'', efficiency = 0.5, pmin = 0.36, pmax = 0.36\<rparr>"

definition ex_fuels_wind25 :: Fuels where
  "ex_fuels_wind25 =
     \<lparr>gas_euro_mwh = 10, kerosine_euro_mwh = 50, co2_euro_ton = 0, wind_percent = 25\<rparr>"

definition ex_w1 :: PowerPlant where
  "ex_w1 = \<lparr>name = ''w1'', type = ''windturbine'', efficiency = 1, pmin = 0, pmax = 1\<rparr>"

definition ex_w2 :: PowerPlant where
  "ex_w2 = \<lparr>name = ''w2'', type = ''windturbine'', efficiency = 1, pmin = 0, pmax = 1\<rparr>"

definition ex_w3 :: PowerPlant where
  "ex_w3 = \<lparr>name = ''w3'', type = ''windturbine'', efficiency = 1, pmin = 0, pmax = 1\<rparr>"

definition ex_tj :: PowerPlant where
  "ex_tj = \<lparr>name = ''tj'', type = ''turbojet'', efficiency = 0.3, pmin = 0, pmax = 10\<rparr>"

section \<open>Properties\<close>

subsection \<open>Comparing costs\<close>

lemma less_cost_value_simps [simp]:
  "(Fin a < Fin b) = (a < b)"
  "(Fin a < PosInf) = True"
  "(PosInf < c) = False"
  by (cases c; auto simp: less_cost_value_def)+

subsection \<open>Cost and capacity\<close>

text \<open>
  C6. The cost of a wind turbine is 0; of a gas-fired plant, gas price / efficiency +
  0.3 * carbon price / efficiency, with the emission factor 0.3 a literal of the function;
  of a turbojet, kerosine price / efficiency; of any other type, infinite. The two
  divisions need a nonzero efficiency (a zero one raises \<^verbatim>\<open>ZeroDivisionError\<close>).
\<close>

theorem calculate_cost_per_mwh_by_type:
  "(type pl = ''windturbine'' \<longrightarrow> calculate_cost_per_mwh pl fs = Inr (Fin 0)) \<and>
   (type pl = ''gasfired'' \<and> efficiency pl \<noteq> 0 \<longrightarrow>
      calculate_cost_per_mwh pl fs =
        Inr (Fin (gas_euro_mwh fs / efficiency pl + (3 / 10) * co2_euro_ton fs / efficiency pl))) \<and>
   (type pl = ''turbojet'' \<and> efficiency pl \<noteq> 0 \<longrightarrow>
      calculate_cost_per_mwh pl fs = Inr (Fin (kerosine_euro_mwh fs / efficiency pl))) \<and>
   (type pl \<noteq> ''windturbine'' \<and> type pl \<noteq> ''gasfired'' \<and> type pl \<noteq> ''turbojet'' \<longrightarrow>
      calculate_cost_per_mwh pl fs = Inr PosInf)"
  by (simp add: calculate_cost_per_mwh_def Let_def)

theorem calculate_cost_per_mwh_by_type_witness:
  "calculate_cost_per_mwh
     \<lparr>name = ''w'', type = ''windturbine'', efficiency = 1, pmin = 0, pmax = 150\<rparr>
     \<lparr>gas_euro_mwh = 13.4, kerosine_euro_mwh = 50.8, co2_euro_ton = 20, wind_percent = 60\<rparr>
     = Inr (Fin 0) \<and>
   calculate_cost_per_mwh
     \<lparr>name = ''g'', type = ''gasfired'', efficiency = 0.5, pmin = 100, pmax = 460\<rparr>
     \<lparr>gas_euro_mwh = 13.4, kerosine_euro_mwh = 50.8, co2_euro_ton = 20, wind_percent = 60\<rparr>
     = Inr (Fin 38.8) \<and>
   calculate_cost_per_mwh
     \<lparr>name = ''t'', type = ''turbojet'', efficiency = 0.5, pmin = 0, pmax = 16\<rparr>
     \<lparr>gas_euro_mwh = 13.4, kerosine_euro_mwh = 50.8, co2_euro_ton = 20, wind_percent = 60\<rparr>
     = Inr (Fin 101.6) \<and>
   calculate_cost_per_mwh
     \<lparr>name = ''n'', type = ''nuclear'', efficiency = 0.5, pmin = 0, pmax = 16\<rparr>
     \<lparr>gas_euro_mwh = 13.4, kerosine_euro_mwh = 50.8, co2_euro_ton = 20, wind_percent = 60\<rparr>
     = Inr PosInf"
  using
    calculate_cost_per_mwh_by_type
      [of "\<lparr>name = ''w'', type = ''windturbine'', efficiency = 1, pmin = 0, pmax = 150\<rparr>"
          "\<lparr>gas_euro_mwh = 13.4, kerosine_euro_mwh = 50.8, co2_euro_ton = 20, wind_percent = 60\<rparr>"]
    calculate_cost_per_mwh_by_type
      [of "\<lparr>name = ''g'', type = ''gasfired'', efficiency = 0.5, pmin = 100, pmax = 460\<rparr>"
          "\<lparr>gas_euro_mwh = 13.4, kerosine_euro_mwh = 50.8, co2_euro_ton = 20, wind_percent = 60\<rparr>"]
    calculate_cost_per_mwh_by_type
      [of "\<lparr>name = ''t'', type = ''turbojet'', efficiency = 0.5, pmin = 0, pmax = 16\<rparr>"
          "\<lparr>gas_euro_mwh = 13.4, kerosine_euro_mwh = 50.8, co2_euro_ton = 20, wind_percent = 60\<rparr>"]
    calculate_cost_per_mwh_by_type
      [of "\<lparr>name = ''n'', type = ''nuclear'', efficiency = 0.5, pmin = 0, pmax = 16\<rparr>"
          "\<lparr>gas_euro_mwh = 13.4, kerosine_euro_mwh = 50.8, co2_euro_ton = 20, wind_percent = 60\<rparr>"]
  by simp

text \<open>
  C7. The effective capacity of a wind turbine is its maximum output times the wind
  percentage over 100; of any other type, its maximum output.
\<close>

theorem calculate_actual_pmax_by_type:
  "(type pl = ''windturbine'' \<longrightarrow>
      calculate_actual_pmax pl fs = pmax pl * (wind_percent fs / 100)) \<and>
   (type pl \<noteq> ''windturbine'' \<longrightarrow> calculate_actual_pmax pl fs = pmax pl)"
  by (simp add: calculate_actual_pmax_def)

theorem calculate_actual_pmax_by_type_witness:
  "calculate_actual_pmax
     \<lparr>name = ''w'', type = ''windturbine'', efficiency = 1, pmin = 0, pmax = 150\<rparr>
     \<lparr>gas_euro_mwh = 13.4, kerosine_euro_mwh = 50.8, co2_euro_ton = 20, wind_percent = 60\<rparr>
     = 90 \<and>
   calculate_actual_pmax
     \<lparr>name = ''g'', type = ''gasfired'', efficiency = 0.5, pmin = 100, pmax = 460\<rparr>
     \<lparr>gas_euro_mwh = 13.4, kerosine_euro_mwh = 50.8, co2_euro_ton = 20, wind_percent = 60\<rparr>
     = 460"
  using
    calculate_actual_pmax_by_type
      [of "\<lparr>name = ''w'', type = ''windturbine'', efficiency = 1, pmin = 0, pmax = 150\<rparr>"
          "\<lparr>gas_euro_mwh = 13.4, kerosine_euro_mwh = 50.8, co2_euro_ton = 20, wind_percent = 60\<rparr>"]
    calculate_actual_pmax_by_type
      [of "\<lparr>name = ''g'', type = ''gasfired'', efficiency = 0.5, pmin = 100, pmax = 460\<rparr>"
          "\<lparr>gas_euro_mwh = 13.4, kerosine_euro_mwh = 50.8, co2_euro_ton = 20, wind_percent = 60\<rparr>"]
  by simp

subsection \<open>Rounding\<close>

lemma round_half_even_tie:
  "y = of_int n + 1 / 2 \<Longrightarrow> round_half_even y = (if even n then n else n + 1)"
proof -
  assume y: "y = of_int n + 1 / 2"
  have "\<lfloor>y\<rfloor> = n" unfolding y by linarith
  then show ?thesis
    by (simp add: round_half_even_def Let_def y)
qed

text \<open>
  C10. An allocation exactly halfway between two adjacent multiples of 0.1, that is
  \<open>(n + 1/2) / 10\<close> for an integer \<open>n\<close>, is emitted as the neighbouring multiple
  with the even tenths digit: \<open>n / 10\<close> when \<open>n\<close> is even, \<open>(n + 1) / 10\<close> otherwise.
\<close>

theorem plan_output_ties_to_even:
  assumes "power_mw e * 10 = of_int n + 1 / 2"
  shows "p (plan_output e) = of_int (if even n then n else n + 1) / 10 \<and>
         \<bar>p (plan_output e) - power_mw e\<bar> = 1 / 20"
proof -
  have r: "round_half_even (power_mw e * 10) = (if even n then n else n + 1)"
    using assms by (rule round_half_even_tie)
  have x: "power_mw e = (of_int n + 1 / 2) / 10"
    using assms by simp
  have out: "p (plan_output e) = of_int (if even n then n else n + 1) / 10"
    by (simp add: plan_output_def round1_def r)
  show ?thesis
    unfolding out using x by (simp add: field_simps)
qed

theorem plan_output_ties_to_even_witness:
  "p (plan_output
        \<lparr>plant = \<lparr>name = ''w'', type = ''windturbine'', efficiency = 1, pmin = 0, pmax = 1\<rparr>,
         cost = Fin 0, actual_pmax = 0.25, power_mw = 0.25\<rparr>) = 0.2 \<and>
   p (plan_output
        \<lparr>plant = \<lparr>name = ''w'', type = ''windturbine'', efficiency = 1, pmin = 0, pmax = 1\<rparr>,
         cost = Fin 0, actual_pmax = 0.75, power_mw = 0.75\<rparr>) = 0.8"
  using
    plan_output_ties_to_even
      [of "\<lparr>plant = \<lparr>name = ''w'', type = ''windturbine'', efficiency = 1, pmin = 0, pmax = 1\<rparr>,
           cost = Fin 0, actual_pmax = 0.25, power_mw = 0.25\<rparr>" 2]
    plan_output_ties_to_even
      [of "\<lparr>plant = \<lparr>name = ''w'', type = ''windturbine'', efficiency = 1, pmin = 0, pmax = 1\<rparr>,
           cost = Fin 0, actual_pmax = 0.75, power_mw = 0.75\<rparr>" 7]
  by simp

subsection \<open>Merit order\<close>

lemma sort_key_of_le:
  "(sort_key_of a \<le> sort_key_of b) =
     (cost a < cost b \<or> (cost a = cost b \<and> actual_pmax b \<le> actual_pmax a))"
  by (auto simp: sort_key_of_def)

lemma merit_order_sorted: "sorted (map sort_key_of (merit_order pds))"
  by (simp add: merit_order_def)

lemma merit_order_length [simp]: "length (merit_order pds) = length pds"
  by (simp add: merit_order_def)

lemma merit_order_set [simp]: "set (merit_order pds) = set pds"
  by (simp add: merit_order_def)

text \<open>
  C8. The ranking sorts the entries by the key (cost, minus effective capacity): the keys
  are totally ordered, a key is below another exactly when its cost is smaller, or the
  costs are equal and its capacity is at least the other's; the ranked list is sorted by
  the key and a permutation of the input; entries with equal keys keep their input order
  (stability); the result is a function of the input; and of two ranked entries with equal
  cost, the one with the larger capacity stands first.
\<close>

theorem merit_order_ranking:
  "sorted (map sort_key_of (merit_order pds)) \<and>
   mset (merit_order pds) = mset pds \<and>
   (\<forall>k. filter (\<lambda>x. sort_key_of x = k) (merit_order pds) = filter (\<lambda>x. sort_key_of x = k) pds) \<and>
   (\<forall>a b. (sort_key_of a \<le> sort_key_of b) =
      (cost a < cost b \<or> (cost a = cost b \<and> actual_pmax b \<le> actual_pmax a))) \<and>
   (\<forall>a b. sort_key_of a \<le> sort_key_of b \<or> sort_key_of b \<le> sort_key_of a) \<and>
   (\<forall>i j. i < length pds \<and> j < length pds \<and>
      cost (merit_order pds ! i) = cost (merit_order pds ! j) \<and>
      actual_pmax (merit_order pds ! j) < actual_pmax (merit_order pds ! i) \<longrightarrow> i < j)"
proof (intro conjI allI impI)
  show "sorted (map sort_key_of (merit_order pds))"
    by (rule merit_order_sorted)
  show "mset (merit_order pds) = mset pds"
    by (simp add: merit_order_def)
  show "filter (\<lambda>x. sort_key_of x = k) (merit_order pds) = filter (\<lambda>x. sort_key_of x = k) pds" for k
    by (simp add: merit_order_def sort_key_stable)
  show "(sort_key_of a \<le> sort_key_of b) =
      (cost a < cost b \<or> (cost a = cost b \<and> actual_pmax b \<le> actual_pmax a))" for a b
    by (rule sort_key_of_le)
  show "sort_key_of a \<le> sort_key_of b \<or> sort_key_of b \<le> sort_key_of a" for a b
    by (rule linear)
next
  fix i j
  assume h: "i < length pds \<and> j < length pds \<and>
      cost (merit_order pds ! i) = cost (merit_order pds ! j) \<and>
      actual_pmax (merit_order pds ! j) < actual_pmax (merit_order pds ! i)"
  show "i < j"
  proof (rule ccontr)
    assume "\<not> i < j"
    then have "j \<le> i" by simp
    with h have "map sort_key_of (merit_order pds) ! j \<le> map sort_key_of (merit_order pds) ! i"
      using merit_order_sorted [of pds] by (simp add: sorted_iff_nth_mono del: nth_map)
    with h have "sort_key_of (merit_order pds ! j) \<le> sort_key_of (merit_order pds ! i)"
      by simp
    with h show False
      by (simp add: sort_key_of_le)
  qed
qed

theorem merit_order_ranking_witness:
  "merit_order
     [\<lparr>plant = \<lparr>name = ''small'', type = ''gasfired'', efficiency = 1, pmin = 0, pmax = 5\<rparr>,
       cost = Fin 10, actual_pmax = 5, power_mw = 0\<rparr>,
      \<lparr>plant = \<lparr>name = ''wind'', type = ''windturbine'', efficiency = 1, pmin = 0, pmax = 3\<rparr>,
       cost = Fin 0, actual_pmax = 3, power_mw = 0\<rparr>,
      \<lparr>plant = \<lparr>name = ''big'', type = ''gasfired'', efficiency = 1, pmin = 0, pmax = 8\<rparr>,
       cost = Fin 10, actual_pmax = 8, power_mw = 0\<rparr>]
   = [\<lparr>plant = \<lparr>name = ''wind'', type = ''windturbine'', efficiency = 1, pmin = 0, pmax = 3\<rparr>,
       cost = Fin 0, actual_pmax = 3, power_mw = 0\<rparr>,
      \<lparr>plant = \<lparr>name = ''big'', type = ''gasfired'', efficiency = 1, pmin = 0, pmax = 8\<rparr>,
       cost = Fin 10, actual_pmax = 8, power_mw = 0\<rparr>,
      \<lparr>plant = \<lparr>name = ''small'', type = ''gasfired'', efficiency = 1, pmin = 0, pmax = 5\<rparr>,
       cost = Fin 10, actual_pmax = 5, power_mw = 0\<rparr>]"
  using merit_order_ranking
    [of "[\<lparr>plant = \<lparr>name = ''small'', type = ''gasfired'', efficiency = 1, pmin = 0, pmax = 5\<rparr>,
           cost = Fin 10, actual_pmax = 5, power_mw = 0\<rparr>,
          \<lparr>plant = \<lparr>name = ''wind'', type = ''windturbine'', efficiency = 1, pmin = 0, pmax = 3\<rparr>,
           cost = Fin 0, actual_pmax = 3, power_mw = 0\<rparr>,
          \<lparr>plant = \<lparr>name = ''big'', type = ''gasfired'', efficiency = 1, pmin = 0, pmax = 8\<rparr>,
           cost = Fin 10, actual_pmax = 8, power_mw = 0\<rparr>]"]
  by (simp add: merit_order_def sort_key_of_def)

subsection \<open>Greedy allocation\<close>

lemma allocate_plant_spec: "allocate_plant r e = spec_allocate_entry r e"
  by (auto simp: allocate_plant_def spec_allocate_entry_def Let_def)

lemma greedy_allocation_eq_spec: "greedy_allocation r es = spec_greedy_allocator r es"
  by (induction es arbitrary: r) (simp_all add: allocate_plant_spec split: prod.splits)

lemma allocate_plant_plant [simp]: "plant (fst (allocate_plant r e)) = plant e"
  by (simp add: allocate_plant_def Let_def)

lemma greedy_allocation_plants: "map plant (fst (greedy_allocation r es)) = map plant es"
proof (induction es arbitrary: r)
  case Nil
  show ?case by simp
next
  case (Cons e es)
  show ?case
  proof (cases "r \<le> 0.1")
    case True
    then show ?thesis by simp
  next
    case False
    obtain e' r' where a: "allocate_plant r e = (e', r')"
      by (cases "allocate_plant r e")
    obtain es' r'' where g: "greedy_allocation r' es = (es', r'')"
      by (cases "greedy_allocation r' es")
    have "plant e' = plant e"
      using allocate_plant_plant [of r e] a by simp
    moreover have "map plant es' = map plant es"
      using Cons.IH [of r'] g by simp
    ultimately show ?thesis
      using False a g by simp
  qed
qed

lemma greedy_allocation_length [simp]: "length (fst (greedy_allocation r es)) = length es"
  using greedy_allocation_plants [of r es] by (metis length_map)

lemma greedy_allocation_prefix:
  "take (length es) (fst (greedy_allocation r (es @ ys))) = fst (greedy_allocation r es)"
proof (induction es arbitrary: r)
  case Nil
  show ?case by simp
next
  case (Cons e es)
  show ?case
  proof (cases "r \<le> 0.1")
    case True
    then show ?thesis by simp
  next
    case False
    obtain e' r' where a: "allocate_plant r e = (e', r')"
      by (cases "allocate_plant r e")
    obtain es' r'' where g: "greedy_allocation r' es = (es', r'')"
      by (cases "greedy_allocation r' es")
    obtain xs' q where h: "greedy_allocation r' (es @ ys) = (xs', q)"
      by (cases "greedy_allocation r' (es @ ys)")
    have "take (length es) xs' = es'"
      using Cons.IH [of r'] g h by simp
    then show ?thesis
      using False a g h by simp
  qed
qed

text \<open>
  C4. The allocation loop of the code is the greedy allocator as the specification words
  it (stop at a remaining load of at most 0.1; skip below a capacity of 0.1; \<open>min\<close> of
  remaining load and capacity; force-commit at the minimum output; skip otherwise). It is
  one forward pass: the entries keep their places, and what the entries of a prefix get
  does not depend on the entries after them.
\<close>

theorem greedy_allocation_spec:
  "greedy_allocation r es = spec_greedy_allocator r es \<and>
   map plant (fst (greedy_allocation r es)) = map plant es \<and>
   take (length es) (fst (greedy_allocation r (es @ ys))) = fst (greedy_allocation r es)"
  using greedy_allocation_eq_spec greedy_allocation_plants greedy_allocation_prefix
  by blast

theorem greedy_allocation_spec_witness:
  "spec_greedy_allocator 480
     [\<lparr>plant = \<lparr>name = ''wind'', type = ''windturbine'', efficiency = 1, pmin = 0, pmax = 150\<rparr>,
       cost = Fin 0, actual_pmax = 90, power_mw = 0\<rparr>,
      \<lparr>plant = \<lparr>name = ''gas'', type = ''gasfired'', efficiency = 0.5, pmin = 100, pmax = 460\<rparr>,
       cost = Fin 38.8, actual_pmax = 460, power_mw = 0\<rparr>,
      \<lparr>plant = \<lparr>name = ''tj'', type = ''turbojet'', efficiency = 0.5, pmin = 0, pmax = 16\<rparr>,
       cost = Fin 101.6, actual_pmax = 16, power_mw = 0\<rparr>]
   = ([\<lparr>plant = \<lparr>name = ''wind'', type = ''windturbine'', efficiency = 1, pmin = 0, pmax = 150\<rparr>,
        cost = Fin 0, actual_pmax = 90, power_mw = 90\<rparr>,
       \<lparr>plant = \<lparr>name = ''gas'', type = ''gasfired'', efficiency = 0.5, pmin = 100, pmax = 460\<rparr>,
        cost = Fin 38.8, actual_pmax = 460, power_mw = 390\<rparr>,
       \<lparr>plant = \<lparr>name = ''tj'', type = ''turbojet'', efficiency = 0.5, pmin = 0, pmax = 16\<rparr>,
        cost = Fin 101.6, actual_pmax = 16, power_mw = 0\<rparr>], 0) \<and>
   spec_greedy_allocator 50
     [\<lparr>plant = \<lparr>name = ''gas'', type = ''gasfired'', efficiency = 0.5, pmin = 60, pmax = 100\<rparr>,
       cost = Fin 38.8, actual_pmax = 100, power_mw = 0\<rparr>]
   = ([\<lparr>plant = \<lparr>name = ''gas'', type = ''gasfired'', efficiency = 0.5, pmin = 60, pmax = 100\<rparr>,
        cost = Fin 38.8, actual_pmax = 100, power_mw = 60\<rparr>], - 10)"
  using
    greedy_allocation_spec
      [of 480
        "[\<lparr>plant = \<lparr>name = ''wind'', type = ''windturbine'', efficiency = 1, pmin = 0, pmax = 150\<rparr>,
           cost = Fin 0, actual_pmax = 90, power_mw = 0\<rparr>,
          \<lparr>plant = \<lparr>name = ''gas'', type = ''gasfired'', efficiency = 0.5, pmin = 100, pmax = 460\<rparr>,
           cost = Fin 38.8, actual_pmax = 460, power_mw = 0\<rparr>,
          \<lparr>plant = \<lparr>name = ''tj'', type = ''turbojet'', efficiency = 0.5, pmin = 0, pmax = 16\<rparr>,
           cost = Fin 101.6, actual_pmax = 16, power_mw = 0\<rparr>]" "[]"]
    greedy_allocation_spec
      [of 50
        "[\<lparr>plant = \<lparr>name = ''gas'', type = ''gasfired'', efficiency = 0.5, pmin = 60, pmax = 100\<rparr>,
           cost = Fin 38.8, actual_pmax = 100, power_mw = 0\<rparr>]" "[]"]
  by (simp add: allocate_plant_def)

subsection \<open>The plan and the order of its entries\<close>

lemma build_plants_data_ok:
  "\<forall>pl\<in>set pps. efficiency pl \<noteq> 0 \<Longrightarrow> \<exists>pds. build_plants_data fs pps = Inr pds"
proof (induction pps)
  case Nil
  show ?case by simp
next
  case (Cons pl pps)
  then obtain pds where "build_plants_data fs pps = Inr pds" by auto
  moreover have "\<exists>c. calculate_cost_per_mwh pl fs = Inr c"
    using Cons.prems by (simp add: calculate_cost_per_mwh_def Let_def)
  ultimately show ?case by auto
qed

lemma build_plants_data_entries:
  "build_plants_data fs pps = Inr pds \<Longrightarrow>
     map plant pds = pps \<and>
     (\<forall>e\<in>set pds. power_mw e = 0 \<and> actual_pmax e = calculate_actual_pmax (plant e) fs \<and>
        sort_key_of e = merit_key fs (plant e))"
proof (induction pps arbitrary: pds)
  case Nil
  then show ?case by simp
next
  case (Cons pl pps)
  then show ?case
    by (auto simp: sort_key_of_def merit_key_def split: sum.splits)
qed

lemma insort_key_map:
  assumes "f x = g (h x)" and "\<forall>y\<in>set xs. f y = g (h y)"
  shows "map h (insort_key f x xs) = insort_key g (h x) (map h xs)"
  using assms by (induction xs) simp_all

lemma sort_key_map:
  assumes "\<forall>y\<in>set xs. f y = g (h y)"
  shows "map h (sort_key f xs) = sort_key g (map h xs)"
  using assms
proof (induction xs)
  case Nil
  show ?case by simp
next
  case (Cons x xs)
  then show ?case
    by (simp add: insort_key_map)
qed

lemma reduce_overproduction_plants:
  "map plant (fst (reduce_overproduction r es)) = map plant es"
proof (induction es arbitrary: r)
  case Nil
  show ?case by simp
next
  case (Cons e es)
  have IH: "\<And>q xs s. reduce_overproduction q es = (xs, s) \<Longrightarrow> map plant xs = map plant es"
    using Cons.IH by (metis fst_conv)
  show ?case
    by (auto simp: Let_def split: prod.splits dest: IH)
qed

lemma handle_overproduction_plants:
  "map plant (fst (handle_overproduction (es, r))) = map plant es"
proof (cases "r < - 0.1")
  case True
  obtain xs q where x: "reduce_overproduction r (rev es) = (xs, q)"
    by (cases "reduce_overproduction r (rev es)")
  have "map plant xs = map plant (rev es)"
    using reduce_overproduction_plants [of r "rev es"] x by simp
  then have "map plant (rev xs) = map plant es"
    by (simp add: rev_map [symmetric])
  then show ?thesis
    using True x by (simp add: handle_overproduction_def)
next
  case False
  then show ?thesis by (simp add: handle_overproduction_def)
qed

lemma dispatch_plants:
  assumes "build_plants_data fs pps = Inr pds"
  shows "\<exists>es r. dispatch L fs pps = Inr (es, r) \<and>
           map plant es = sort_key (merit_key fs) pps"
proof -
  obtain xs q where g: "greedy_allocation L (merit_order pds) = (xs, q)"
    by (cases "greedy_allocation L (merit_order pds)")
  obtain es r where h: "handle_overproduction (xs, q) = (es, r)"
    by (cases "handle_overproduction (xs, q)")
  have "map plant es = map plant xs"
    using handle_overproduction_plants [of xs q] h by simp
  also have "\<dots> = map plant (merit_order pds)"
    using greedy_allocation_plants [of L "merit_order pds"] g by simp
  also have "\<dots> = sort_key (merit_key fs) (map plant pds)"
    unfolding merit_order_def
    using build_plants_data_entries [OF assms] by (intro sort_key_map) simp
  also have "map plant pds = pps"
    using build_plants_data_entries [OF assms] by simp
  finally show ?thesis
    using assms g h by (simp add: dispatch_def)
qed

text \<open>
  C1 (as the code has it). When no plant has efficiency 0, the computation returns a
  plan with one (name, output) pair per plant of the request, and the pairs stand in
  merit order: the names are those of the plants sorted by the stable sort on (cost,
  minus effective capacity). The list is sorted in place and emitted as sorted; the
  input order is not restored.
\<close>

theorem calculate_production_plan_merit_order:
  assumes "\<forall>pl\<in>set pps. efficiency pl \<noteq> 0"
  shows "\<exists>plan. calculate_production_plan L fs pps = Inr plan \<and>
           length plan = length pps \<and>
           mset (map PowerPlantOutput.name plan) = mset (map PowerPlant.name pps) \<and>
           map PowerPlantOutput.name plan = map PowerPlant.name (sort_key (merit_key fs) pps)"
proof -
  obtain pds where b: "build_plants_data fs pps = Inr pds"
    using build_plants_data_ok [OF assms] by blast
  obtain es r where d: "dispatch L fs pps = Inr (es, r)"
    and m: "map plant es = sort_key (merit_key fs) pps"
    using dispatch_plants [OF b] by blast
  let ?plan = "map plan_output es"
  have c: "calculate_production_plan L fs pps = Inr ?plan"
    using d by (simp add: calculate_production_plan_def)
  have "map PowerPlantOutput.name ?plan = map PowerPlant.name (map plant es)"
    by (simp add: plan_output_def)
  then have n: "map PowerPlantOutput.name ?plan = map PowerPlant.name (sort_key (merit_key fs) pps)"
    by (simp only: m)
  have l: "length ?plan = length pps"
    using m by (metis length_map length_sort)
  have "mset (map PowerPlant.name (sort_key (merit_key fs) pps)) = mset (map PowerPlant.name pps)"
    by simp
  then have s: "mset (map PowerPlantOutput.name ?plan) = mset (map PowerPlant.name pps)"
    by (simp only: n)
  from c l s n show ?thesis
    by blast
qed

lemmas eval_defs = calculate_production_plan_def dispatch_def calculate_cost_per_mwh_def
  calculate_actual_pmax_def merit_order_def sort_key_of_def allocate_plant_def
  handle_overproduction_def plan_output_def round1_def round_half_even_def Let_def

lemmas ex_defs = ex_fuels_def ex_wind10_def ex_gas40_def ex_gas60_def ex_gas_broken_def
  ex_g0_def ex_g1_def ex_g2_def ex_fuels_wind25_def ex_w1_def ex_w2_def ex_w3_def ex_tj_def

lemmas handler_defs = production_plan_def production_plan_body_def

theorem calculate_production_plan_input_order_counterexample:
  "calculate_production_plan 480
     \<lparr>gas_euro_mwh = 13.4, kerosine_euro_mwh = 50.8, co2_euro_ton = 20, wind_percent = 60\<rparr>
     [\<lparr>name = ''gas'', type = ''gasfired'', efficiency = 0.5, pmin = 100, pmax = 460\<rparr>,
      \<lparr>name = ''wind'', type = ''windturbine'', efficiency = 1, pmin = 0, pmax = 150\<rparr>]
   = Inr [\<lparr>PowerPlantOutput.name = ''wind'', p = 90\<rparr>,
          \<lparr>PowerPlantOutput.name = ''gas'', p = 390\<rparr>] \<and>
   map PowerPlantOutput.name
     [\<lparr>PowerPlantOutput.name = ''wind'', p = 90\<rparr>, \<lparr>PowerPlantOutput.name = ''gas'', p = 390\<rparr>]
   \<noteq> map PowerPlant.name
     [\<lparr>name = ''gas'', type = ''gasfired'', efficiency = 0.5, pmin = 100, pmax = 460\<rparr>,
      \<lparr>name = ''wind'', type = ''windturbine'', efficiency = 1, pmin = 0, pmax = 150\<rparr>]"
  by (simp add: eval_defs)

theorem calculate_production_plan_merit_order_witness:
  "map PowerPlantOutput.name
     (projr (calculate_production_plan 480
       \<lparr>gas_euro_mwh = 13.4, kerosine_euro_mwh = 50.8, co2_euro_ton = 20, wind_percent = 60\<rparr>
       [\<lparr>name = ''tj'', type = ''turbojet'', efficiency = 0.5, pmin = 0, pmax = 16\<rparr>,
        \<lparr>name = ''gas'', type = ''gasfired'', efficiency = 0.5, pmin = 100, pmax = 460\<rparr>,
        \<lparr>name = ''wind'', type = ''windturbine'', efficiency = 1, pmin = 0, pmax = 150\<rparr>]))
   = [''wind'', ''gas'', ''tj'']"
  using calculate_production_plan_merit_order
    [of "[\<lparr>name = ''tj'', type = ''turbojet'', efficiency = 0.5, pmin = 0, pmax = 16\<rparr>,
          \<lparr>name = ''gas'', type = ''gasfired'', efficiency = 0.5, pmin = 100, pmax = 460\<rparr>,
          \<lparr>name = ''wind'', type = ''windturbine'', efficiency = 1, pmin = 0, pmax = 150\<rparr>]"
        480
        "\<lparr>gas_euro_mwh = 13.4, kerosine_euro_mwh = 50.8, co2_euro_ton = 20, wind_percent = 60\<rparr>"]
  by (auto simp: merit_key_def calculate_cost_per_mwh_def calculate_actual_pmax_def)

subsection \<open>Bounds on the allocations\<close>

lemma allocate_plant_bounds:
  assumes "\<not> r \<le> 1 / 10" and "0 \<le> power_mw e \<and> power_mw e \<le> actual_pmax e"
  shows "0 \<le> power_mw (fst (allocate_plant r e)) \<and>
         power_mw (fst (allocate_plant r e)) \<le> actual_pmax (fst (allocate_plant r e))"
  using assms by (auto simp: allocate_plant_def Let_def)

lemma greedy_allocation_bounds:
  assumes "\<forall>e\<in>set es. 0 \<le> power_mw e \<and> power_mw e \<le> actual_pmax e"
  shows "\<forall>e\<in>set (fst (greedy_allocation r es)). 0 \<le> power_mw e \<and> power_mw e \<le> actual_pmax e"
  using assms
proof (induction es arbitrary: r)
  case Nil
  show ?case by simp
next
  case (Cons e es)
  show ?case
  proof (cases "r \<le> 1 / 10")
    case True
    then show ?thesis using Cons.prems by simp
  next
    case False
    obtain e' r' where a: "allocate_plant r e = (e', r')"
      by (cases "allocate_plant r e")
    obtain es' r'' where g: "greedy_allocation r' es = (es', r'')"
      by (cases "greedy_allocation r' es")
    have "0 \<le> power_mw e' \<and> power_mw e' \<le> actual_pmax e'"
      using allocate_plant_bounds [OF False, of e] Cons.prems a by simp
    moreover have "\<forall>x\<in>set es'. 0 \<le> power_mw x \<and> power_mw x \<le> actual_pmax x"
      using Cons.IH [of r'] Cons.prems g by simp
    ultimately show ?thesis
      using False a g by simp
  qed
qed

lemma greedy_allocation_pmin:
  assumes "\<forall>e\<in>set es. 0 \<le> pmin (plant e)"
  shows "\<forall>e\<in>set (fst (greedy_allocation r es)). 0 \<le> pmin (plant e)"
proof -
  have "\<forall>pl\<in>set (map plant es). 0 \<le> pmin pl"
    using assms by simp
  then have "\<forall>pl\<in>set (map plant (fst (greedy_allocation r es))). 0 \<le> pmin pl"
    by (simp only: greedy_allocation_plants)
  then show ?thesis by simp
qed

lemma reduce_overproduction_bounds:
  assumes "\<forall>e\<in>set es. 0 \<le> pmin (plant e) \<and> 0 \<le> power_mw e \<and> power_mw e \<le> actual_pmax e"
  shows "\<forall>e\<in>set (fst (reduce_overproduction r es)).
           0 \<le> power_mw e \<and> power_mw e \<le> actual_pmax e"
  using assms
proof (induction es arbitrary: r)
  case Nil
  show ?case by simp
next
  case (Cons e es)
  have IH: "\<And>q xs s x. reduce_overproduction q es = (xs, s) \<Longrightarrow> x \<in> set xs \<Longrightarrow>
              0 \<le> power_mw x \<and> power_mw x \<le> actual_pmax x"
    using Cons.IH Cons.prems by (metis fst_conv list.set_intros(2))
  have e: "0 \<le> pmin (plant e)" "0 \<le> power_mw e" "power_mw e \<le> actual_pmax e"
    and es: "\<And>x. x \<in> set es \<Longrightarrow> 0 \<le> power_mw x \<and> power_mw x \<le> actual_pmax x"
    using Cons.prems by simp_all
  show ?case
    using e by (auto simp: Let_def split: prod.splits dest: IH es)
qed

lemma handle_overproduction_bounds:
  assumes "\<forall>e\<in>set es. 0 \<le> pmin (plant e) \<and> 0 \<le> power_mw e \<and> power_mw e \<le> actual_pmax e"
  shows "\<forall>e\<in>set (fst (handle_overproduction (es, r))).
           0 \<le> power_mw e \<and> power_mw e \<le> actual_pmax e"
proof (cases "r < - 0.1")
  case True
  obtain xs q where x: "reduce_overproduction r (rev es) = (xs, q)"
    by (cases "reduce_overproduction r (rev es)")
  have "\<forall>e\<in>set xs. 0 \<le> power_mw e \<and> power_mw e \<le> actual_pmax e"
    using reduce_overproduction_bounds [of "rev es" r] assms x by simp
  then show ?thesis
    using True x by (simp add: handle_overproduction_def)
next
  case False
  then show ?thesis using assms by (simp add: handle_overproduction_def)
qed

lemma round_half_even_near:
  "\<bar>of_int (round_half_even y) - y\<bar> \<le> 1 / 2"
  unfolding round_half_even_def Let_def by (auto simp: abs_le_iff)

lemma round_half_even_nonneg: "0 \<le> y \<Longrightarrow> 0 \<le> round_half_even y"
  unfolding round_half_even_def Let_def by auto

lemma round1_near: "\<bar>round1 x - x\<bar> \<le> 1 / 20"
  using round_half_even_near [of "x * 10"] by (simp add: round1_def abs_le_iff field_simps)

lemma round1_nonneg: "0 \<le> x \<Longrightarrow> 0 \<le> round1 x"
  using round_half_even_nonneg [of "x * 10"] by (simp add: round1_def)

text \<open>
  C9 (as the code has it). For plants with nonnegative minimum and maximum output and a
  nonnegative wind percentage, every entry's allocation \<open>a\<close> satisfies
  \<open>0 \<le> a \<le> effective capacity\<close> after the greedy allocation and after the
  correction; a force-committed entry is no exception, as a plant is force-committed only
  when its minimum output is at most its capacity. The rounded output of the plan is
  nonnegative and exceeds the capacity by at most 0.05.
\<close>

theorem allocation_within_capacity:
  assumes "\<forall>pl\<in>set pps. 0 \<le> pmin pl \<and> 0 \<le> pmax pl"
      and "0 \<le> wind_percent fs"
      and "build_plants_data fs pps = Inr pds"
  shows "(\<forall>e\<in>set (fst (greedy_allocation L (merit_order pds))).
            0 \<le> power_mw e \<and> power_mw e \<le> actual_pmax e) \<and>
         (\<forall>e\<in>set (fst (handle_overproduction (greedy_allocation L (merit_order pds)))).
            0 \<le> power_mw e \<and> power_mw e \<le> actual_pmax e \<and>
            0 \<le> p (plan_output e) \<and> p (plan_output e) \<le> actual_pmax e + 1 / 20)"
proof -
  have cap: "0 \<le> calculate_actual_pmax pl fs" if "pl \<in> set pps" for pl
    using assms(1,2) that by (simp add: calculate_actual_pmax_def)
  have ent: "map plant pds = pps"
    "\<forall>e\<in>set pds. power_mw e = 0 \<and> actual_pmax e = calculate_actual_pmax (plant e) fs"
    using build_plants_data_entries [OF assms(3)] by simp_all
  have pl: "plant e \<in> set pps" if "e \<in> set pds" for e
    using ent(1) that by (metis imageI list.set_map)
  have init: "\<forall>e\<in>set (merit_order pds).
      0 \<le> pmin (plant e) \<and> 0 \<le> power_mw e \<and> power_mw e \<le> actual_pmax e"
    using ent(2) cap pl assms(1) by simp
  obtain xs q where g: "greedy_allocation L (merit_order pds) = (xs, q)"
    by (cases "greedy_allocation L (merit_order pds)")
  have b1: "\<forall>e\<in>set xs. 0 \<le> power_mw e \<and> power_mw e \<le> actual_pmax e"
    using greedy_allocation_bounds [of "merit_order pds" L] init g by simp
  have m1: "\<forall>e\<in>set xs. 0 \<le> pmin (plant e)"
    using greedy_allocation_pmin [of "merit_order pds" L] init g by simp
  have b2: "\<forall>e\<in>set (fst (handle_overproduction (xs, q))).
      0 \<le> power_mw e \<and> power_mw e \<le> actual_pmax e"
    using handle_overproduction_bounds [of xs q] b1 m1 by simp
  have b3: "0 \<le> p (plan_output e) \<and> p (plan_output e) \<le> actual_pmax e + 1 / 20"
    if "0 \<le> power_mw e \<and> power_mw e \<le> actual_pmax e" for e
  proof -
    have "round1 (power_mw e) \<le> power_mw e + 1 / 20"
      using round1_near [of "power_mw e"] by linarith
    then show ?thesis
      using that round1_nonneg [of "power_mw e"] unfolding plan_output_def by simp
  qed
  have b4: "\<forall>e\<in>set (fst (handle_overproduction (xs, q))).
      0 \<le> power_mw e \<and> power_mw e \<le> actual_pmax e \<and>
      0 \<le> p (plan_output e) \<and> p (plan_output e) \<le> actual_pmax e + 1 / 20"
  proof
    fix e
    assume "e \<in> set (fst (handle_overproduction (xs, q)))"
    with b2 have a: "0 \<le> power_mw e \<and> power_mw e \<le> actual_pmax e"
      by (rule bspec)
    note c = b3 [OF a]
    from a c show "0 \<le> power_mw e \<and> power_mw e \<le> actual_pmax e \<and>
      0 \<le> p (plan_output e) \<and> p (plan_output e) \<le> actual_pmax e + 1 / 20"
      by (simp only: simp_thms)
  qed
  have b5: "\<forall>e\<in>set (fst (xs, q)). 0 \<le> power_mw e \<and> power_mw e \<le> actual_pmax e"
    using b1 by (simp only: fst_conv)
  show ?thesis
    unfolding g using b5 b4 by (rule conjI)
qed

theorem allocation_within_capacity_witness:
  "build_plants_data ex_fuels [ex_gas40, ex_wind10] =
     Inr [\<lparr>plant = ex_gas40, cost = Fin 20, actual_pmax = 100, power_mw = 0\<rparr>,
          \<lparr>plant = ex_wind10, cost = Fin 0, actual_pmax = 10, power_mw = 0\<rparr>] \<and>
   list_all (\<lambda>e. 0 \<le> power_mw e \<and> power_mw e \<le> actual_pmax e)
     (fst (handle_overproduction (greedy_allocation 45
        (merit_order [\<lparr>plant = ex_gas40, cost = Fin 20, actual_pmax = 100, power_mw = 0\<rparr>,
                      \<lparr>plant = ex_wind10, cost = Fin 0, actual_pmax = 10, power_mw = 0\<rparr>]))))"
  using allocation_within_capacity
    [of "[ex_gas40, ex_wind10]" ex_fuels
        "[\<lparr>plant = ex_gas40, cost = Fin 20, actual_pmax = 100, power_mw = 0\<rparr>,
          \<lparr>plant = ex_wind10, cost = Fin 0, actual_pmax = 10, power_mw = 0\<rparr>]" 45]
  by (simp add: list_all_iff ex_defs calculate_cost_per_mwh_def calculate_actual_pmax_def)

theorem force_commit_unresolved_counterexample:
  "dispatch 0.74 ex_fuels [ex_g0, ex_g1, ex_g2] =
     Inr ([\<lparr>plant = ex_g0, cost = Fin 10, actual_pmax = 0.25, power_mw = 0.25\<rparr>,
           \<lparr>plant = ex_g1, cost = Fin 12.5, actual_pmax = 0.25, power_mw = 0.25\<rparr>,
           \<lparr>plant = ex_g2, cost = Fin 20, actual_pmax = 0.36, power_mw = 0.36\<rparr>], - 0.12) \<and>
   allocate_plant 0.24 \<lparr>plant = ex_g2, cost = Fin 20, actual_pmax = 0.36, power_mw = 0\<rparr> =
     (\<lparr>plant = ex_g2, cost = Fin 20, actual_pmax = 0.36, power_mw = pmin ex_g2\<rparr>, 0.24 - pmin ex_g2) \<and>
   (0.24 :: real) < pmin ex_g2 \<and>
   (- 0.12 :: real) < - 0.1 \<and>
   production_plan \<lparr>load = 0.74, fuels = ex_fuels, powerplants = [ex_g0, ex_g1, ex_g2]\<rparr> =
     Inr [\<lparr>PowerPlantOutput.name = ''g0'', p = 0.2\<rparr>,
          \<lparr>PowerPlantOutput.name = ''g1'', p = 0.2\<rparr>,
          \<lparr>PowerPlantOutput.name = ''g2'', p = 0.4\<rparr>] \<and>
   calculate_actual_pmax ex_g2 ex_fuels < 0.4 \<and>
   pmin ex_g2 \<noteq> 0.4"
  by (simp add: eval_defs ex_defs handler_defs)

subsection \<open>Overproduction\<close>

lemma reduce_overproduction_eq_spec:
  "\<forall>e\<in>set es. 0 \<le> power_mw e \<Longrightarrow> reduce_overproduction r es = spec_reverse_walk r es"
proof (induction es arbitrary: r)
  case Nil
  show ?case by simp
next
  case (Cons e es)
  have IH: "\<And>q. reduce_overproduction q es = spec_reverse_walk q es"
    using Cons.IH Cons.prems by simp
  have e: "0 \<le> power_mw e"
    using Cons.prems by simp
  show ?case
  proof (cases "power_mw e = 0")
    case True
    then show ?thesis by (simp add: IH)
  next
    case False
    with e have "0 < power_mw e" by simp
    then show ?thesis
      using False by (simp add: IH Let_def)
  qed
qed

lemma handle_overproduction_eq_spec:
  assumes "\<forall>e\<in>set es. 0 \<le> power_mw e"
  shows "handle_overproduction (es, r) = spec_overproduction_corrector (es, r)"
proof -
  have "reduce_overproduction r (rev es) = spec_reverse_walk r (rev es)"
    using assms by (intro reduce_overproduction_eq_spec) simp
  then show ?thesis
    by (simp add: handle_overproduction_def spec_overproduction_corrector_def)
qed

lemma reduce_overproduction_total:
  "r \<le> 0 \<Longrightarrow>
     sum_list (map power_mw (fst (reduce_overproduction r es))) + snd (reduce_overproduction r es)
       = sum_list (map power_mw es) + r \<and>
     r \<le> snd (reduce_overproduction r es) \<and> snd (reduce_overproduction r es) \<le> 0"
proof (induction es arbitrary: r)
  case Nil
  then show ?case by simp
next
  case (Cons e es)
  let ?red = "min (power_mw e) \<bar>r\<bar>"
  show ?case
  proof (cases "0 < power_mw e")
    case False
    obtain xs s where x: "reduce_overproduction r es = (xs, s)"
      by (cases "reduce_overproduction r es")
    show ?thesis
      using False x Cons.IH [OF Cons.prems] by simp
  next
    case pos: True
    show ?thesis
    proof (cases "pmin (plant e) \<le> power_mw e - \<bar>r\<bar>")
      case True
      then show ?thesis using pos Cons.prems by simp
    next
      case nofull: False
      show ?thesis
      proof (cases "pmin (plant e) = 0")
        case False
        obtain xs s where x: "reduce_overproduction r es = (xs, s)"
          by (cases "reduce_overproduction r es")
        show ?thesis
          using False nofull pos x Cons.IH [OF Cons.prems] by simp
      next
        case zero: True
        have r': "r + ?red \<le> 0" "r \<le> r + ?red"
          using Cons.prems pos by auto
        show ?thesis
        proof (cases "\<bar>r + ?red\<bar> < 0.1")
          case True
          then show ?thesis
            using zero nofull pos r' by (simp add: Let_def)
        next
          case False
          obtain xs s where x: "reduce_overproduction (r + ?red) es = (xs, s)"
            by (cases "reduce_overproduction (r + ?red) es")
          have "sum_list (map power_mw xs) + s = sum_list (map power_mw es) + (r + ?red) \<and>
                r + ?red \<le> s \<and> s \<le> 0"
            using Cons.IH [OF r'(1)] x by simp
          then show ?thesis
            using False zero nofull pos r' x by (simp add: Let_def)
        qed
      qed
    qed
  qed
qed

lemma handle_overproduction_total:
  "sum_list (map power_mw (fst (handle_overproduction (es, r)))) + snd (handle_overproduction (es, r))
     = sum_list (map power_mw es) + r"
proof (cases "r < - 0.1")
  case True
  obtain xs s where x: "reduce_overproduction r (rev es) = (xs, s)"
    by (cases "reduce_overproduction r (rev es)")
  have "r \<le> 0" using True by simp
  from reduce_overproduction_total [OF this, of "rev es"] x
  have "sum_list (map power_mw xs) + s = sum_list (map power_mw (rev es)) + r"
    by simp
  moreover have "sum_list (map power_mw (rev xs)) = sum_list (map power_mw xs)"
    by (simp add: rev_map [symmetric] sum_list_rev)
  moreover have "sum_list (map power_mw (rev es)) = sum_list (map power_mw es)"
    by (simp add: rev_map [symmetric] sum_list_rev)
  ultimately show ?thesis
    using True x by (simp add: handle_overproduction_def)
next
  case False
  then show ?thesis by (simp add: handle_overproduction_def)
qed

lemma handle_overproduction_remaining:
  assumes "r < - (1 / 10)"
  shows "r \<le> snd (handle_overproduction (es, r)) \<and> snd (handle_overproduction (es, r)) \<le> 0"
proof -
  obtain xs s where x: "reduce_overproduction r (rev es) = (xs, s)"
    by (cases "reduce_overproduction r (rev es)")
  have "r \<le> 0" using assms by simp
  from reduce_overproduction_total [OF this, of "rev es"] x
  have "r \<le> s \<and> s \<le> 0" by simp
  then show ?thesis
    using assms x by (simp add: handle_overproduction_def)
qed

text \<open>
  C5 (as the code has it). On entries with nonnegative allocations, the overproduction
  step of the code is the corrector as the specification words it: it runs only when the
  remaining load is below \<open>-0.1\<close>, walks the reversed merit order, skips entries with
  zero allocation, lets the first entry that stays at or above its minimum output give up
  the whole excess (remaining load 0, stop), reduces an entry with minimum output 0 by
  \<open>min\<close> of its allocation and the excess, adding the reduction back to the remaining
  load and stopping once that is within 0.1 of zero, and leaves every other entry as it
  is. The sum of the allocations plus the remaining load is unchanged by the corrector, and
  the remaining load it ends with lies between the one it started with and 0: it may
  still be below \<open>-0.1\<close>, or within the tolerance after reductions of entries with
  minimum output 0 alone. The corrector raises nothing.
\<close>

theorem handle_overproduction_spec:
  assumes "\<forall>e\<in>set es. 0 \<le> power_mw e"
  shows "handle_overproduction (es, r) = spec_overproduction_corrector (es, r) \<and>
         sum_list (map power_mw (fst (handle_overproduction (es, r))))
             + snd (handle_overproduction (es, r))
           = sum_list (map power_mw es) + r \<and>
         (r < - (1 / 10) \<longrightarrow>
            r \<le> snd (handle_overproduction (es, r)) \<and> snd (handle_overproduction (es, r)) \<le> 0) \<and>
         (- (1 / 10) \<le> r \<longrightarrow> handle_overproduction (es, r) = (es, r))"
proof (intro conjI impI)
  show "handle_overproduction (es, r) = spec_overproduction_corrector (es, r)"
    using assms by (rule handle_overproduction_eq_spec)
  show "sum_list (map power_mw (fst (handle_overproduction (es, r))))
             + snd (handle_overproduction (es, r))
           = sum_list (map power_mw es) + r"
    by (rule handle_overproduction_total)
  show "r \<le> snd (handle_overproduction (es, r))" if "r < - (1 / 10)"
    using handle_overproduction_remaining [OF that] by simp
  show "snd (handle_overproduction (es, r)) \<le> 0" if "r < - (1 / 10)"
    using handle_overproduction_remaining [OF that] by simp
  show "handle_overproduction (es, r) = (es, r)" if "- (1 / 10) \<le> r"
    using that by (simp add: handle_overproduction_def)
qed

theorem handle_overproduction_spec_witness:
  "spec_overproduction_corrector
     ([\<lparr>plant = ex_wind10, cost = Fin 0, actual_pmax = 10, power_mw = 10\<rparr>,
       \<lparr>plant = ex_gas40, cost = Fin 20, actual_pmax = 100, power_mw = 40\<rparr>], - 5) =
     ([\<lparr>plant = ex_wind10, cost = Fin 0, actual_pmax = 10, power_mw = 5\<rparr>,
       \<lparr>plant = ex_gas40, cost = Fin 20, actual_pmax = 100, power_mw = 40\<rparr>], 0) \<and>
   spec_overproduction_corrector
     ([\<lparr>plant = ex_gas60, cost = Fin 20, actual_pmax = 100, power_mw = 60\<rparr>], - 10) =
     ([\<lparr>plant = ex_gas60, cost = Fin 20, actual_pmax = 100, power_mw = 60\<rparr>], - 10)"
  using
    handle_overproduction_spec
      [of "[\<lparr>plant = ex_wind10, cost = Fin 0, actual_pmax = 10, power_mw = 10\<rparr>,
            \<lparr>plant = ex_gas40, cost = Fin 20, actual_pmax = 100, power_mw = 40\<rparr>]" "- 5"]
    handle_overproduction_spec
      [of "[\<lparr>plant = ex_gas60, cost = Fin 20, actual_pmax = 100, power_mw = 60\<rparr>]" "- 10"]
  by (simp add: handle_overproduction_def ex_defs)

theorem corrector_within_tolerance_counterexample:
  "dispatch 39.95 ex_fuels [ex_wind10, ex_gas40] =
     Inr ([\<lparr>plant = ex_wind10, cost = Fin 0, actual_pmax = 10, power_mw = 0\<rparr>,
           \<lparr>plant = ex_gas40, cost = Fin 20, actual_pmax = 100, power_mw = 40\<rparr>], - 0.05) \<and>
   greedy_allocation 39.95
     [\<lparr>plant = ex_wind10, cost = Fin 0, actual_pmax = 10, power_mw = 0\<rparr>,
      \<lparr>plant = ex_gas40, cost = Fin 20, actual_pmax = 100, power_mw = 0\<rparr>] =
     ([\<lparr>plant = ex_wind10, cost = Fin 0, actual_pmax = 10, power_mw = 10\<rparr>,
       \<lparr>plant = ex_gas40, cost = Fin 20, actual_pmax = 100, power_mw = 40\<rparr>], - 10.05) \<and>
   (10::real) - \<bar>- 10.05\<bar> < pmin ex_wind10 \<and>
   (40::real) - \<bar>- 10.05\<bar> < pmin ex_gas40 \<and>
   \<bar>- 0.05 :: real\<bar> < 0.1 \<and>
   production_plan \<lparr>load = 39.95, fuels = ex_fuels, powerplants = [ex_wind10, ex_gas40]\<rparr> =
     Inr [\<lparr>PowerPlantOutput.name = ''wind'', p = 0\<rparr>, \<lparr>PowerPlantOutput.name = ''gas'', p = 40\<rparr>]"
  by (simp add: eval_defs ex_defs handler_defs)

subsection \<open>The request handler\<close>

text \<open>
  C2 (the code at a feasible request). Three wind turbines of capacity 0.25 each and a
  turbojet of capacity 10, no minimum outputs, load 0.75: the allocations are 0.25, 0.25,
  0.25 and 0, their sum is the load. Each 0.25 is rounded to 0.2, the rounded sum 0.6
  misses the load by 0.15, and the handler rejects its own plan.
\<close>

theorem rounded_sum_misses_load:
  "dispatch 0.75 ex_fuels_wind25 [ex_w1, ex_w2, ex_w3, ex_tj] =
     Inr ([\<lparr>plant = ex_w1, cost = Fin 0, actual_pmax = 0.25, power_mw = 0.25\<rparr>,
           \<lparr>plant = ex_w2, cost = Fin 0, actual_pmax = 0.25, power_mw = 0.25\<rparr>,
           \<lparr>plant = ex_w3, cost = Fin 0, actual_pmax = 0.25, power_mw = 0.25\<rparr>,
           \<lparr>plant = ex_tj, cost = Fin (500 / 3), actual_pmax = 10, power_mw = 0\<rparr>], 0) \<and>
   calculate_production_plan 0.75 ex_fuels_wind25 [ex_w1, ex_w2, ex_w3, ex_tj] =
     Inr [\<lparr>PowerPlantOutput.name = ''w1'', p = 0.2\<rparr>,
          \<lparr>PowerPlantOutput.name = ''w2'', p = 0.2\<rparr>,
          \<lparr>PowerPlantOutput.name = ''w3'', p = 0.2\<rparr>,
          \<lparr>PowerPlantOutput.name = ''tj'', p = 0\<rparr>] \<and>
   \<bar>sum_list (map p [\<lparr>PowerPlantOutput.name = ''w1'', p = 0.2\<rparr>,
          \<lparr>PowerPlantOutput.name = ''w2'', p = 0.2\<rparr>,
          \<lparr>PowerPlantOutput.name = ''w3'', p = 0.2\<rparr>,
          \<lparr>PowerPlantOutput.name = ''tj'', p = 0\<rparr>]) - 0.75\<bar> = 0.15 \<and>
   production_plan
     \<lparr>load = 0.75, fuels = ex_fuels_wind25, powerplants = [ex_w1, ex_w2, ex_w3, ex_tj]\<rparr> =
     Inl (HTTPException 500 (Error_str (HTTPException 400 (Unable_to_match_load 0.75 0.6))))"
  by (simp add: eval_defs ex_defs handler_defs)

text \<open>
  C3 (the code at an infeasible request). One gas plant with minimum output 60, load 50:
  the body of the handler raises \<^verbatim>\<open>HTTPException(status_code=400)\<close>, the
  \<^verbatim>\<open>except Exception\<close> clause around it catches that exception and raises status 500,
  the status a \<^verbatim>\<open>ZeroDivisionError\<close> of the computation gets too.
\<close>

theorem infeasible_load_is_server_error:
  "production_plan \<lparr>load = 50, fuels = ex_fuels, powerplants = [ex_gas60]\<rparr> =
     Inl (HTTPException 500 (Error_str (HTTPException 400 (Unable_to_match_load 50 60)))) \<and>
   production_plan \<lparr>load = 50, fuels = ex_fuels, powerplants = [ex_gas_broken]\<rparr> =
     Inl (HTTPException 500 (Error_str ZeroDivisionError))"
  by (simp add: eval_defs ex_defs handler_defs)

text \<open>No request is answered with status 400: every error of the handler has status 500.\<close>

lemma production_plan_error_status:
  "production_plan request = Inl e \<Longrightarrow> \<exists>m. e = HTTPException 500 m"
  by (auto simp: production_plan_def split: sum.splits)

end
